theory Spec2Isabelle
  imports Main "HOL-Library.Sublist"
begin

section \<open>JavaScript values\<close>

text \<open>
  The payloads, header values and notifier arguments of the gateway are untyped
  JavaScript values (\<^verbatim>\<open>any\<close>). Numbers are restricted to integers; an object is the
  list of its own properties, the first binding of a key being the one that is read.
\<close>

datatype jsval =
    JUndefined
  | JNull
  | JBool bool
  | JNum int
  | JStr string
  | JArr "jsval list"
  | JObj "(string \<times> jsval) list"

text \<open>What \<^verbatim>\<open>if (v)\<close>, \<^verbatim>\<open>v && w\<close> and \<^verbatim>\<open>v || w\<close> test.\<close>

fun truthy :: "jsval \<Rightarrow> bool" where
  "truthy JUndefined = False"
| "truthy JNull = False"
| "truthy (JBool b) = b"
| "truthy (JNum n) = (n \<noteq> 0)"
| "truthy (JStr s) = (s \<noteq> [])"
| "truthy (JArr vs) = True"
| "truthy (JObj fs) = True"

text \<open>
  Reading the property \<open>k\<close> of a value that is neither \<^verbatim>\<open>undefined\<close> nor
  \<^verbatim>\<open>null\<close>, for the keys the gateway reads (\<^verbatim>\<open>code\<close>, \<^verbatim>\<open>msg\<close>, \<^verbatim>\<open>data\<close>):
  a primitive or an array has no such property.
\<close>

fun js_get :: "jsval \<Rightarrow> string \<Rightarrow> jsval" where
  "js_get (JObj fs) k = (case map_of fs k of Some v \<Rightarrow> v | None \<Rightarrow> JUndefined)"
| "js_get v k = JUndefined"

text \<open>\<^verbatim>\<open>v || {}\<close>, the guard in front of every destructuring of the source.\<close>

definition or_empty :: "jsval \<Rightarrow> jsval" where
  "or_empty v = (if truthy v then v else JObj [])"

text \<open>\<^verbatim>\<open>String(n)\<close> and \<^verbatim>\<open>`${n}`\<close> for an integer \<open>n\<close>: its decimal digits.\<close>

definition digit_char :: "nat \<Rightarrow> char" where
  "digit_char d = ''0123456789'' ! d"

fun digits :: "nat \<Rightarrow> string" where
  "digits n = (if n < 10 then [digit_char n] else digits (n div 10) @ [digit_char (n mod 10)])"

declare digits.simps [simp del]

definition string_of_int :: "int \<Rightarrow> string" where
  "string_of_int i = (if i < 0 then CHR ''-'' # digits (nat (- i)) else digits (nat i))"

text \<open>\<^verbatim>\<open>s.includes(t)\<close>: \<open>t\<close> occurs in \<open>s\<close> as a contiguous run of characters.\<close>

fun str_includes :: "string \<Rightarrow> string \<Rightarrow> bool" where
  "str_includes [] t = (t = [])"
| "str_includes (c # s) t = (prefix t (c # s) \<or> str_includes s t)"

section \<open>Data model\<close>

text \<open>
  \<^verbatim>\<open>CustomRequestConfig\<close>: the request descriptor. Every property is optional;
  \<open>None\<close> is a property the object does not have. \<open>req_method\<close>, \<open>req_data\<close> and
  \<open>req_headers\<close> are the descriptor's \<^verbatim>\<open>method\<close>, \<^verbatim>\<open>data\<close> and \<^verbatim>\<open>headers\<close>.
\<close>

record config =
  req_method :: "string option"
  url :: "string option"
  params :: "jsval option"
  req_data :: "jsval option"
  req_headers :: "(string \<rightharpoonup> jsval) option"
  timeout :: "int option"
  responseType :: "string option"
  hasErrorMessage :: "bool option"
  returnFullResponse :: "bool option"
  filename :: "string option"

definition empty_config :: config where
  "empty_config = \<lparr> req_method = None, url = None, params = None, req_data = None,
     req_headers = None, timeout = None, responseType = None, hasErrorMessage = None,
     returnFullResponse = None, filename = None \<rparr>"

text \<open>\<^verbatim>\<open>AxiosResponse\<close>: the response envelope.\<close>

record response =
  status :: int
  headers :: "string \<rightharpoonup> jsval"
  config :: config
  data :: jsval

text \<open>
  The failure object handed to the error handler (\<^verbatim>\<open>error: any\<close>): \<open>isCancel\<close> is
  what \<^verbatim>\<open>axios.isCancel(error)\<close> answers, \<open>err_config\<close> is \<^verbatim>\<open>error.config\<close>,
  \<open>err_response\<close> is \<^verbatim>\<open>error.response\<close>.
\<close>

record error =
  isCancel :: bool
  err_config :: "config option"
  err_response :: "response option"
  message :: string

text \<open>What a call returns: the whole envelope, or a bare value.\<close>

datatype retval = Envelope response | Payload jsval

text \<open>
  What a call is rejected with: a failure object handed to \<^verbatim>\<open>Promise.reject\<close>, or the
  \<^verbatim>\<open>TypeError\<close> the runtime throws.
\<close>

datatype failure = Rejected error | TypeError

text \<open>
  \<^verbatim>\<open>ApiServiceOptions\<close>, as far as the interceptors read them. \<open>onError\<close> says
  whether a notifier is configured; its invocations are recorded in the order they are
  made, each by its argument. \<^verbatim>\<open>baseURL\<close>, \<^verbatim>\<open>timeout\<close> and \<^verbatim>\<open>headers\<close> go to
  the transport library unread.
\<close>

record options =
  successStatusCode :: "int option"
  requestInterceptor :: "(config \<Rightarrow> config) option"
  responseInterceptor :: "(response \<Rightarrow> retval) option"
  onError :: bool
  statusMap :: "(int \<rightharpoonup> string) option"

text \<open>
  The collaborators: whether a global \<^verbatim>\<open>window\<close> exists, \<^verbatim>\<open>JSON.stringify\<close> on a
  failure object (\<open>None\<close> when it throws, as it does on a cyclic object or a
  \<^verbatim>\<open>BigInt\<close>, or returns no string), and the transport, which answers a descriptor with
  an envelope or a failure.
\<close>

record env =
  window_defined :: bool
  stringify :: "error \<Rightarrow> string option"
  transport :: "config \<Rightarrow> error + response"

text \<open>
  The observable effects of a call: the descriptors handed to the transport, the
  arguments of the notifier's invocations, and the files handed to the browser's save
  mechanism (content and suggested name).
\<close>

record trace =
  sent :: "config list"
  notified :: "jsval list"
  saved :: "(jsval \<times> string) list"

section \<open>Messages\<close>

text \<open>
  Strings are UTF-8 byte sequences. \<open>msg_connect_error\<close> is U+8FDE U+63A5 U+9519
  U+8BEF, \<open>msg_connect_failed\<close> is U+8FDE U+63A5 U+670D U+52A1 U+5668 U+5931 U+8D25,
  \<open>msg_timeout\<close> is U+670D U+52A1 U+5668 U+54CD U+5E94 U+8D85 U+65F6 U+FF0C U+8BF7
  U+5237 U+65B0 U+5F53 U+524D U+9875.
\<close>

definition msg_connect_error :: string where
  "msg_connect_error = [CHR 0xE8, CHR 0xBF, CHR 0x9E, CHR 0xE6, CHR 0x8E, CHR 0xA5,
     CHR 0xE9, CHR 0x94, CHR 0x99, CHR 0xE8, CHR 0xAF, CHR 0xAF]"

definition msg_connect_failed :: string where
  "msg_connect_failed = [CHR 0xE8, CHR 0xBF, CHR 0x9E, CHR 0xE6, CHR 0x8E, CHR 0xA5,
     CHR 0xE6, CHR 0x9C, CHR 0x8D, CHR 0xE5, CHR 0x8A, CHR 0xA1, CHR 0xE5, CHR 0x99,
     CHR 0xA8, CHR 0xE5, CHR 0xA4, CHR 0xB1, CHR 0xE8, CHR 0xB4, CHR 0xA5]"

definition msg_timeout :: string where
  "msg_timeout = [CHR 0xE6, CHR 0x9C, CHR 0x8D, CHR 0xE5, CHR 0x8A, CHR 0xA1, CHR 0xE5,
     CHR 0x99, CHR 0xA8, CHR 0xE5, CHR 0x93, CHR 0x8D, CHR 0xE5, CHR 0xBA, CHR 0x94,
     CHR 0xE8, CHR 0xB6, CHR 0x85, CHR 0xE6, CHR 0x97, CHR 0xB6, CHR 0xEF, CHR 0xBC,
     CHR 0x8C, CHR 0xE8, CHR 0xAF, CHR 0xB7, CHR 0xE5, CHR 0x88, CHR 0xB7, CHR 0xE6,
     CHR 0x96, CHR 0xB0, CHR 0xE5, CHR 0xBD, CHR 0x93, CHR 0xE5, CHR 0x89, CHR 0x8D,
     CHR 0xE9, CHR 0xA1, CHR 0xB5]"

text \<open>The built-in table \<^verbatim>\<open>_statusMap\<close>, entry by entry.\<close>

definition msg_400 :: string where
  "msg_400 = [CHR 0xE8, CHR 0xAF, CHR 0xB7, CHR 0xE6, CHR 0xB1, CHR 0x82, CHR 0xE9,
     CHR 0x94, CHR 0x99, CHR 0xE8, CHR 0xAF, CHR 0xAF]"

definition msg_401 :: string where
  "msg_401 = [CHR 0xE6, CHR 0x9C, CHR 0xAA, CHR 0xE6, CHR 0x8E, CHR 0x88, CHR 0xE6,
     CHR 0x9D, CHR 0x83, CHR 0xEF, CHR 0xBC, CHR 0x8C, CHR 0xE8, CHR 0xAF, CHR 0xB7,
     CHR 0xE7, CHR 0x99, CHR 0xBB, CHR 0xE5, CHR 0xBD, CHR 0x95]"

definition msg_403 :: string where
  "msg_403 = [CHR 0xE6, CHR 0x8B, CHR 0x92, CHR 0xE7, CHR 0xBB, CHR 0x9D, CHR 0xE8,
     CHR 0xAE, CHR 0xBF, CHR 0xE9, CHR 0x97, CHR 0xAE]"

definition msg_404 :: string where
  "msg_404 = [CHR 0xE8, CHR 0xAF, CHR 0xB7, CHR 0xE6, CHR 0xB1, CHR 0x82, CHR 0xE9,
     CHR 0x94, CHR 0x99, CHR 0xE8, CHR 0xAF, CHR 0xAF, CHR 0x2C, CHR 0xE6, CHR 0x9C,
     CHR 0xAA, CHR 0xE6, CHR 0x89, CHR 0xBE, CHR 0xE5, CHR 0x88, CHR 0xB0, CHR 0xE8,
     CHR 0xAF, CHR 0xA5, CHR 0xE8, CHR 0xB5, CHR 0x84, CHR 0xE6, CHR 0xBA, CHR 0x90]"

definition msg_405 :: string where
  "msg_405 = [CHR 0xE8, CHR 0xAF, CHR 0xB7, CHR 0xE6, CHR 0xB1, CHR 0x82, CHR 0xE6,
     CHR 0x96, CHR 0xB9, CHR 0xE6, CHR 0xB3, CHR 0x95, CHR 0xE6, CHR 0x9C, CHR 0xAA,
     CHR 0xE5, CHR 0x85, CHR 0x81, CHR 0xE8, CHR 0xAE, CHR 0xB8]"

definition msg_408 :: string where
  "msg_408 = [CHR 0xE8, CHR 0xAF, CHR 0xB7, CHR 0xE6, CHR 0xB1, CHR 0x82, CHR 0xE8,
     CHR 0xB6, CHR 0x85, CHR 0xE6, CHR 0x97, CHR 0xB6]"

definition msg_500 :: string where
  "msg_500 = [CHR 0xE6, CHR 0x9C, CHR 0x8D, CHR 0xE5, CHR 0x8A, CHR 0xA1, CHR 0xE5,
     CHR 0x99, CHR 0xA8, CHR 0xE7, CHR 0xAB, CHR 0xAF, CHR 0xE5, CHR 0x87, CHR 0xBA,
     CHR 0xE9, CHR 0x94, CHR 0x99]"

definition msg_501 :: string where
  "msg_501 = [CHR 0xE7, CHR 0xBD, CHR 0x91, CHR 0xE7, CHR 0xBB, CHR 0x9C, CHR 0xE6,
     CHR 0x9C, CHR 0xAA, CHR 0xE5, CHR 0xAE, CHR 0x9E, CHR 0xE7, CHR 0x8E, CHR 0xB0]"

definition msg_502 :: string where
  "msg_502 = [CHR 0xE7, CHR 0xBD, CHR 0x91, CHR 0xE7, CHR 0xBB, CHR 0x9C, CHR 0xE9,
     CHR 0x94, CHR 0x99, CHR 0xE8, CHR 0xAF, CHR 0xAF]"

definition msg_503 :: string where
  "msg_503 = [CHR 0xE6, CHR 0x9C, CHR 0x8D, CHR 0xE5, CHR 0x8A, CHR 0xA1, CHR 0xE4,
     CHR 0xB8, CHR 0x8D, CHR 0xE5, CHR 0x8F, CHR 0xAF, CHR 0xE7, CHR 0x94, CHR 0xA8]"

definition msg_504 :: string where
  "msg_504 = [CHR 0xE7, CHR 0xBD, CHR 0x91, CHR 0xE7, CHR 0xBB, CHR 0x9C, CHR 0xE8,
     CHR 0xB6, CHR 0x85, CHR 0xE6, CHR 0x97, CHR 0xB6]"

definition msg_505 :: string where
  "msg_505 = [CHR 0x68, CHR 0x74, CHR 0x74, CHR 0x70, CHR 0xE7, CHR 0x89, CHR 0x88,
     CHR 0xE6, CHR 0x9C, CHR 0xAC, CHR 0xE4, CHR 0xB8, CHR 0x8D, CHR 0xE6, CHR 0x94,
     CHR 0xAF, CHR 0xE6, CHR 0x8C, CHR 0x81, CHR 0xE8, CHR 0xAF, CHR 0xA5, CHR 0xE8,
     CHR 0xAF, CHR 0xB7, CHR 0xE6, CHR 0xB1, CHR 0x82]"

definition msg_506 :: string where
  "msg_506 = [CHR 0x68, CHR 0x74, CHR 0x74, CHR 0x70, CHR 0xE4, CHR 0xBB, CHR 0xA3,
     CHR 0xE7, CHR 0x90, CHR 0x86, CHR 0xE9, CHR 0x94, CHR 0x99, CHR 0xE8, CHR 0xAF,
     CHR 0xAF]"

definition default_statusMap :: "int \<rightharpoonup> string" where
  "default_statusMap = map_of
     [(400, msg_400), (401, msg_401), (403, msg_403), (404, msg_404), (405, msg_405),
      (408, msg_408), (500, msg_500), (501, msg_501), (502, msg_502), (503, msg_503),
      (504, msg_504), (505, msg_505), (506, msg_506)]"

section \<open>The constructor's defaults\<close>

text \<open>\<^verbatim>\<open>this.statusMap = statusMap || _statusMap\<close> and \<^verbatim>\<open>successStatusCode = 200\<close>.\<close>

definition the_statusMap :: "options \<Rightarrow> (int \<rightharpoonup> string)" where
  "the_statusMap opts = (case statusMap opts of Some m \<Rightarrow> m | None \<Rightarrow> default_statusMap)"

definition the_successStatusCode :: "options \<Rightarrow> int" where
  "the_successStatusCode opts = (case successStatusCode opts of Some c \<Rightarrow> c | None \<Rightarrow> 200)"

section \<open>The interceptors\<close>

text \<open>The request interceptor: the caller's shaping hook, or the descriptor as it is.\<close>

definition onRequest :: "options \<Rightarrow> config \<Rightarrow> config" where
  "onRequest opts cfg =
     (case requestInterceptor opts of Some hook \<Rightarrow> hook cfg | None \<Rightarrow> cfg)"

text \<open>
  The response interceptor's success handler. It returns the call's result and the
  arguments of the notifier invocations it made.
\<close>

definition header :: "(string \<rightharpoonup> jsval) \<Rightarrow> string \<Rightarrow> jsval" where
  "header hs k = (case hs k of Some v \<Rightarrow> v | None \<Rightarrow> JUndefined)"

text \<open>\<^verbatim>\<open>const { code, msg } = data || {}\<close>.\<close>

definition business_code :: "response \<Rightarrow> jsval" where
  "business_code resp = js_get (or_empty (data resp)) ''code''"

definition business_msg :: "response \<Rightarrow> jsval" where
  "business_msg resp = js_get (or_empty (data resp)) ''msg''"

definition onFulfilled :: "options \<Rightarrow> response \<Rightarrow> retval \<times> jsval list" where
  "onFulfilled opts resp =
     (case responseInterceptor opts of
        Some hook \<Rightarrow> (hook resp, [])
      | None \<Rightarrow>
          (let isBlob = header (headers resp) ''isBlob'';
               customConfig = config resp;
               code = business_code resp;
               msg = business_msg resp;
               calls = (if hasErrorMessage customConfig = Some True
                           \<and> code \<noteq> JNum (the_successStatusCode opts)
                        then (if onError opts then [msg] else [])
                        else [])
           in (if truthy isBlob \<or> returnFullResponse customConfig = Some True
               then Envelope resp
               else Payload (data resp), calls)))"

text \<open>
  The message for a failure that carries a response:
  \<^verbatim>\<open>status && this.statusMap[status]\<close> chooses between the table's entry and the
  fallback.
\<close>

definition lookup_status :: "(int \<rightharpoonup> string) \<Rightarrow> int \<Rightarrow> jsval" where
  "lookup_status tbl s = (case tbl s of Some m \<Rightarrow> JStr m | None \<Rightarrow> JUndefined)"

definition status_message :: "(int \<rightharpoonup> string) \<Rightarrow> int \<Rightarrow> string" where
  "status_message tbl s =
     (if truthy (JNum s) \<and> truthy (lookup_status tbl s)
      then (case tbl s of Some m \<Rightarrow> m | None \<Rightarrow> [])
      else msg_connect_error @ string_of_int s)"

text \<open>\<^verbatim>\<open>(error.config || {}).hasErrorMessage\<close>.\<close>

definition config_flag :: "config option \<Rightarrow> bool option" where
  "config_flag c = (case c of Some cfg \<Rightarrow> hasErrorMessage cfg | None \<Rightarrow> None)"

text \<open>
  The message resolution of the error handler. With a response the table decides.
  Without one the generic text is assigned first and the failure is serialized with it;
  \<^verbatim>\<open>JSON.stringify(error).includes('timeout')\<close> throws when there is no string to
  search.
\<close>

definition resolve_message :: "env \<Rightarrow> options \<Rightarrow> error \<Rightarrow> failure + error" where
  "resolve_message e opts err =
     (case err_response err of
        Some r \<Rightarrow> Inr (err\<lparr>message := status_message (the_statusMap opts) (status r)\<rparr>)
      | None \<Rightarrow>
          (let err1 = err\<lparr>message := msg_connect_failed\<rparr>
           in case stringify e err1 of
                None \<Rightarrow> Inl TypeError
              | Some s \<Rightarrow>
                  Inr (if str_includes s ''timeout''
                       then err1\<lparr>message := msg_timeout\<rparr>
                       else err1)))"

text \<open>
  The response interceptor's error handler. It returns how it settles the call
  (\<open>Inl (Rejected err)\<close> is \<^verbatim>\<open>return Promise.reject(err)\<close>, \<open>Inl TypeError\<close> an
  exception that leaves the handler) and the arguments of the notifier invocations it
  made.
\<close>

definition onRejected :: "env \<Rightarrow> options \<Rightarrow> error \<Rightarrow> (failure + retval) \<times> jsval list" where
  "onRejected e opts err =
     (if isCancel err then (Inl (Rejected err), [])
      else if config_flag (err_config err) \<noteq> Some False then
        (case resolve_message e opts err of
           Inl thrown \<Rightarrow> (Inl thrown, [])
         | Inr err' \<Rightarrow>
             (Inl (Rejected err'), if onError opts then [JStr (message err')] else []))
      else (Inl (Rejected err), []))"

section \<open>The operations\<close>

text \<open>
  One call through the transport library's instance: the request interceptor shapes
  the descriptor, the transport answers it, and the response interceptor's success or
  error handler settles the call. \<open>Inl\<close> is a rejected call. The caller's hooks are
  functions that return; the defaults the instance merges into a descriptor
  (\<^verbatim>\<open>baseURL\<close>, \<^verbatim>\<open>timeout\<close>, \<^verbatim>\<open>headers\<close>) are the transport's business.
\<close>

definition service_request :: "env \<Rightarrow> options \<Rightarrow> config \<Rightarrow> (failure + retval) \<times> trace" where
  "service_request e opts cfg =
     (let out = onRequest opts cfg
      in case transport e out of
           Inr resp \<Rightarrow>
             (case onFulfilled opts resp of
                (v, calls) \<Rightarrow> (Inr v, \<lparr> sent = [out], notified = calls, saved = [] \<rparr>))
         | Inl err \<Rightarrow>
             (case onRejected e opts err of
                (settled, calls) \<Rightarrow> (settled, \<lparr> sent = [out], notified = calls, saved = [] \<rparr>)))"

text \<open>\<^verbatim>\<open>request\<close>: awaits the instance and rethrows what it catches.\<close>

definition request :: "env \<Rightarrow> options \<Rightarrow> config \<Rightarrow> (failure + retval) \<times> trace" where
  "request e opts cfg =
     (case service_request e opts cfg of
        (Inr v, t) \<Rightarrow> (Inr v, t)
      | (Inl thrown, t) \<Rightarrow> (Inl thrown, t))"

text \<open>
  The verbs. \<^verbatim>\<open>hasErrorMessage = true\<close> and \<^verbatim>\<open>headers = {}\<close> are the defaults of
  arguments the caller leaves out (\<open>None\<close>).
\<close>

definition verb_config ::
  "string \<Rightarrow> string \<Rightarrow> bool option \<Rightarrow> (string \<rightharpoonup> jsval) option \<Rightarrow> config" where
  "verb_config m u flag hs =
     empty_config \<lparr> req_method := Some m, url := Some u,
       hasErrorMessage := Some (case flag of Some b \<Rightarrow> b | None \<Rightarrow> True),
       req_headers := Some (case hs of Some h \<Rightarrow> h | None \<Rightarrow> Map.empty) \<rparr>"

definition get_config ::
  "string \<Rightarrow> jsval option \<Rightarrow> bool option \<Rightarrow> (string \<rightharpoonup> jsval) option \<Rightarrow> config" where
  "get_config u ps flag hs = (verb_config ''get'' u flag hs) \<lparr> params := ps \<rparr>"


definition put_config ::
  "string \<Rightarrow> jsval option \<Rightarrow> bool option \<Rightarrow> (string \<rightharpoonup> jsval) option \<Rightarrow> config" where
  "put_config u d flag hs = (verb_config ''put'' u flag hs) \<lparr> req_data := d \<rparr>"

definition delete_config ::
  "string \<Rightarrow> jsval option \<Rightarrow> bool option \<Rightarrow> (string \<rightharpoonup> jsval) option \<Rightarrow> config" where
  "delete_config u ps flag hs = (verb_config ''delete'' u flag hs) \<lparr> params := ps \<rparr>"

definition get ::
  "env \<Rightarrow> options \<Rightarrow> string \<Rightarrow> jsval option \<Rightarrow> bool option \<Rightarrow> (string \<rightharpoonup> jsval) option
     \<Rightarrow> (failure + retval) \<times> trace" where
  "get e opts u ps flag hs = request e opts (get_config u ps flag hs)"


definition put ::
  "env \<Rightarrow> options \<Rightarrow> string \<Rightarrow> jsval option \<Rightarrow> bool option \<Rightarrow> (string \<rightharpoonup> jsval) option
     \<Rightarrow> (failure + retval) \<times> trace" where
  "put e opts u d flag hs = request e opts (put_config u d flag hs)"

definition delete ::
  "env \<Rightarrow> options \<Rightarrow> string \<Rightarrow> jsval option \<Rightarrow> bool option \<Rightarrow> (string \<rightharpoonup> jsval) option
     \<Rightarrow> (failure + retval) \<times> trace" where
  "delete e opts u ps flag hs = request e opts (delete_config u ps flag hs)"

text \<open>
  Object spread, \<^verbatim>\<open>{ ...a, ...b }\<close>: a property of \<open>b\<close> replaces the property of the
  same name of \<open>a\<close>, whole.
\<close>

definition override :: "'a option \<Rightarrow> 'a option \<Rightarrow> 'a option" where
  "override a b = (case b of Some x \<Rightarrow> Some x | None \<Rightarrow> a)"

definition spread :: "config \<Rightarrow> config \<Rightarrow> config" where
  "spread a b =
     \<lparr> req_method = override (req_method a) (req_method b),
       url = override (url a) (url b),
       params = override (params a) (params b),
       req_data = override (req_data a) (req_data b),
       req_headers = override (req_headers a) (req_headers b),
       timeout = override (timeout a) (timeout b),
       responseType = override (responseType a) (responseType b),
       hasErrorMessage = override (hasErrorMessage a) (hasErrorMessage b),
       returnFullResponse = override (returnFullResponse a) (returnFullResponse b),
       filename = override (filename a) (filename b) \<rparr>"

text \<open>
  \<^verbatim>\<open>upload\<close>. The descriptor is the object literal
  \<^verbatim>\<open>{ method: 'post', url, data: formData,
     headers: { 'Content-Type': 'multipart/form-data', ...config.headers }, ...config }\<close>:
  the headers are merged first, then the whole of \<^verbatim>\<open>config\<close> is spread over the
  result. A call without the third argument has \<open>empty_config\<close> there.
\<close>

definition spread_headers :: "(string \<rightharpoonup> jsval) option \<Rightarrow> (string \<rightharpoonup> jsval)" where
  "spread_headers hs = (case hs of Some h \<Rightarrow> h | None \<Rightarrow> Map.empty)"

definition upload_config :: "string \<Rightarrow> jsval \<Rightarrow> config \<Rightarrow> config" where
  "upload_config u formData cfg =
     spread
       (empty_config \<lparr> req_method := Some ''post'', url := Some u, req_data := Some formData,
          req_headers := Some ([''Content-Type'' \<mapsto> JStr ''multipart/form-data'']
                                 ++ spread_headers (req_headers cfg)) \<rparr>)
       cfg"

definition upload ::
  "env \<Rightarrow> options \<Rightarrow> string \<Rightarrow> jsval \<Rightarrow> config \<Rightarrow> (failure + retval) \<times> trace" where
  "upload e opts u formData cfg = request e opts (upload_config u formData cfg)"

text \<open>The header a descriptor carries under a name, if any.\<close>

definition descriptor_header :: "config \<Rightarrow> string \<Rightarrow> jsval option" where
  "descriptor_header cfg k = (case req_headers cfg of Some h \<Rightarrow> h k | None \<Rightarrow> None)"

text \<open>
  \<^verbatim>\<open>download\<close>. \<^verbatim>\<open>this.service.get(url, config)\<close> is the instance's call with
  the method and the address set; its result has been through the response
  interceptor, and \<^verbatim>\<open>response.data\<close> is read from that result (a \<^verbatim>\<open>TypeError\<close> when
  it is \<^verbatim>\<open>undefined\<close> or \<^verbatim>\<open>null\<close>). The save itself is the browser's.
\<close>

definition service_get :: "env \<Rightarrow> options \<Rightarrow> string \<Rightarrow> config \<Rightarrow> (failure + retval) \<times> trace" where
  "service_get e opts u cfg =
     service_request e opts (cfg \<lparr> req_method := Some ''get'', url := Some u \<rparr>)"

definition result_data :: "retval \<Rightarrow> failure + jsval" where
  "result_data v =
     (case v of
        Envelope r \<Rightarrow> Inr (data r)
      | Payload p \<Rightarrow>
          (if p = JUndefined \<or> p = JNull then Inl TypeError else Inr (js_get p ''data'')))"

definition suggested_name :: "config \<Rightarrow> string" where
  "suggested_name cfg =
     (case filename cfg of Some f \<Rightarrow> (if f \<noteq> [] then f else ''file'') | None \<Rightarrow> ''file'')"

definition download ::
  "env \<Rightarrow> options \<Rightarrow> string \<Rightarrow> jsval option \<Rightarrow> config \<Rightarrow> (failure + unit) \<times> trace" where
  "download e opts u ps cfg =
     (if \<not> window_defined e then (Inr (), \<lparr> sent = [], notified = [], saved = [] \<rparr>)
      else
        (case service_get e opts u
                (spread (empty_config \<lparr> params := ps, responseType := Some ''blob'' \<rparr>) cfg) of
           (Inl thrown, t) \<Rightarrow> (Inl thrown, t)
         | (Inr v, t) \<Rightarrow>
             (case result_data v of
                Inl f \<Rightarrow> (Inl f, t)
              | Inr blob \<Rightarrow> (Inr (), t \<lparr> saved := [(blob, suggested_name cfg)] \<rparr>))))"

section \<open>The earlier JavaScript revision of the error handler\<close>

text \<open>
  The JavaScript revision of the module has the same error handler without the
  cancellation test.
\<close>

definition onRejected_js :: "env \<Rightarrow> options \<Rightarrow> error \<Rightarrow> (failure + retval) \<times> jsval list" where
  "onRejected_js e opts err =
     (if config_flag (err_config err) \<noteq> Some False then
        (case resolve_message e opts err of
           Inl thrown \<Rightarrow> (Inl thrown, [])
         | Inr err' \<Rightarrow>
             (Inl (Rejected err'), if onError opts then [JStr (message err')] else []))
      else (Inl (Rejected err), []))"

section \<open>The descriptor an outcome carries\<close>



section \<open>Example inputs\<close>

text \<open>A gateway with a notifier and every default, and one with a custom table.\<close>

definition ex_opts :: options where
  "ex_opts = \<lparr> successStatusCode = None, requestInterceptor = None,
     responseInterceptor = None, onError = True, statusMap = None \<rparr>"

definition ex_opts_table :: options where
  "ex_opts_table = ex_opts \<lparr> statusMap := Some [404 \<mapsto> []] \<rparr>"

definition ex_hook :: "response \<Rightarrow> retval" where
  "ex_hook resp = Payload (JNum (status resp))"

definition ex_opts_hook :: options where
  "ex_opts_hook = ex_opts \<lparr> responseInterceptor := Some ex_hook \<rparr>"

text \<open>Descriptors: what \<^verbatim>\<open>get('/api/list')\<close> builds, and variations of its flags.\<close>

definition ex_config :: config where
  "ex_config = get_config ''/api/list'' None None None"


definition ex_config_full :: config where
  "ex_config_full = ex_config \<lparr> returnFullResponse := Some True \<rparr>"

text \<open>An envelope whose payload is \<^verbatim>\<open>{ code: 1001, msg: 'denied', data: [] }\<close>.\<close>

definition ex_payload :: jsval where
  "ex_payload = JObj [(''code'', JNum 1001), (''msg'', JStr ''denied''), (''data'', JArr [])]"

definition ex_response :: "config \<Rightarrow> response" where
  "ex_response cfg = \<lparr> status = 200, headers = Map.empty, config = cfg, data = ex_payload \<rparr>"

text \<open>The same envelope with a response header \<^verbatim>\<open>isBlob\<close>.\<close>

definition ex_flagged_response :: "jsval \<Rightarrow> config \<Rightarrow> response" where
  "ex_flagged_response v cfg = (ex_response cfg) \<lparr> headers := [''isBlob'' \<mapsto> v] \<rparr>"

text \<open>Failures: a 404 answer, a failure without an answer, a cancellation.\<close>

definition ex_http_error :: "config \<Rightarrow> error" where
  "ex_http_error cfg = \<lparr> isCancel = False, err_config = Some cfg,
     err_response = Some \<lparr> status = 404, headers = Map.empty, config = cfg, data = JStr [] \<rparr>,
     message = ''Request failed with status code 404'' \<rparr>"

definition ex_network_error :: "config \<Rightarrow> error" where
  "ex_network_error cfg = \<lparr> isCancel = False, err_config = Some cfg, err_response = None,
     message = ''Network Error'' \<rparr>"


definition ex_cancel :: "config \<Rightarrow> error" where
  "ex_cancel cfg = \<lparr> isCancel = True, err_config = Some cfg, err_response = None,
     message = ''canceled'' \<rparr>"

text \<open>
  Collaborators: a serializer that prints the message and, when the failure has a
  descriptor, the descriptor's \<^verbatim>\<open>timeout\<close> key; transports that answer every
  descriptor the same way.
\<close>

definition ex_stringify :: "error \<Rightarrow> string option" where
  "ex_stringify err =
     Some (''{message:'' @ message err
       @ (case err_config err of Some c \<Rightarrow> '',config:{timeout:5000}'' | None \<Rightarrow> [])
       @ ''}'')"

definition ex_env :: "(config \<Rightarrow> error + response) \<Rightarrow> env" where
  "ex_env t = \<lparr> window_defined = False, stringify = ex_stringify, transport = t \<rparr>"

definition answers :: "config \<Rightarrow> error + response" where
  "answers cfg = Inr (ex_response cfg)"

definition fails_http :: "config \<Rightarrow> error + response" where
  "fails_http cfg = Inl (ex_http_error cfg)"

definition fails_network :: "config \<Rightarrow> error + response" where
  "fails_network cfg = Inl (ex_network_error cfg)"

definition cancels :: "config \<Rightarrow> error + response" where
  "cancels cfg = Inl (ex_cancel cfg)"


text \<open>
  The same collaborators where the failure cannot be serialized (its descriptor holds a
  \<^verbatim>\<open>BigInt\<close>, say).
\<close>

definition ex_env_unserializable :: "(config \<Rightarrow> error + response) \<Rightarrow> env" where
  "ex_env_unserializable t = (ex_env t) \<lparr> stringify := (\<lambda>err. None) \<rparr>"

text \<open>The third argument of an upload that adds a header of its own.\<close>

definition ex_extra :: config where
  "ex_extra = empty_config \<lparr> req_headers := Some [''Token'' \<mapsto> JStr ''abc''] \<rparr>"

section \<open>Auxiliary facts\<close>

lemma includes_sublist: "str_includes s t = sublist t s"
  by (induction s) (auto simp: sublist_Cons_right)

lemma string_of_int_404: "string_of_int 404 = ''404''"
  by (simp add: string_of_int_def digits.simps digit_char_def)

lemma truthy_header:
  "truthy (header hs k) = (\<exists>v. hs k = Some v \<and> truthy v)"
  by (simp add: header_def split: option.split)

lemma onFulfilled_default:
  "responseInterceptor opts = None \<Longrightarrow>
   onFulfilled opts resp =
     (if truthy (header (headers resp) ''isBlob'') \<or> returnFullResponse (config resp) = Some True
      then Envelope resp else Payload (data resp),
      if hasErrorMessage (config resp) = Some True
           \<and> business_code resp \<noteq> JNum (the_successStatusCode opts)
      then (if onError opts then [business_msg resp] else []) else [])"
  by (simp add: onFulfilled_def Let_def)

lemma onFulfilled_hook:
  "responseInterceptor opts = Some hook \<Longrightarrow> onFulfilled opts resp = (hook resp, [])"
  by (simp add: onFulfilled_def)


lemma onRejected_cancel: "isCancel err \<Longrightarrow> onRejected e opts err = (Inl (Rejected err), [])"
  by (simp add: onRejected_def)


lemma onRejected_http:
  "\<not> isCancel err \<Longrightarrow> config_flag (err_config err) \<noteq> Some False \<Longrightarrow> err_response err = Some r \<Longrightarrow>
   onRejected e opts err =
     (Inl (Rejected (err\<lparr>message := status_message (the_statusMap opts) (status r)\<rparr>)),
      if onError opts then [JStr (status_message (the_statusMap opts) (status r))] else [])"
  by (simp add: onRejected_def resolve_message_def)


lemma onRejected_unserializable:
  "\<not> isCancel err \<Longrightarrow> config_flag (err_config err) \<noteq> Some False \<Longrightarrow> err_response err = None \<Longrightarrow>
   stringify e (err\<lparr>message := msg_connect_failed\<rparr>) = None \<Longrightarrow>
   onRejected e opts err = (Inl TypeError, [])"
  by (simp add: onRejected_def resolve_message_def Let_def)

lemma onRejected_rejects: "\<exists>thrown. fst (onRejected e opts err) = Inl thrown"
  by (cases "resolve_message e opts err") (simp_all add: onRejected_def)

lemma request_failure:
  "transport e (onRequest opts cfg) = Inl err \<Longrightarrow>
   request e opts cfg =
     (fst (onRejected e opts err),
      \<lparr> sent = [onRequest opts cfg], notified = snd (onRejected e opts err), saved = [] \<rparr>)"
proof -
  assume t: "transport e (onRequest opts cfg) = Inl err"
  obtain thrown where "fst (onRejected e opts err) = Inl thrown"
    using onRejected_rejects by blast
  then obtain calls where c: "onRejected e opts err = (Inl thrown, calls)"
    by (cases "onRejected e opts err") simp
  show ?thesis
    by (simp add: request_def service_request_def Let_def t c)
qed

lemma request_success:
  "transport e (onRequest opts cfg) = Inr resp \<Longrightarrow>
   request e opts cfg =
     (Inr (fst (onFulfilled opts resp)),
      \<lparr> sent = [onRequest opts cfg], notified = snd (onFulfilled opts resp), saved = [] \<rparr>)"
  by (cases "onFulfilled opts resp") (simp add: request_def service_request_def Let_def)


lemma status_message_cases:
  "status_message tbl s =
     (case tbl s of
        Some m \<Rightarrow> if s \<noteq> 0 \<and> m \<noteq> [] then m else msg_connect_error @ string_of_int s
      | None \<Rightarrow> msg_connect_error @ string_of_int s)"
  by (simp add: status_message_def lookup_status_def split: option.split)


section \<open>The success path\<close>

text \<open>
  Claim C1, as stated, fails: with business code 1001, success code 200 and
  \<^verbatim>\<open>hasErrorMessage\<close> true, a descriptor that asks for \<^verbatim>\<open>returnFullResponse\<close> gets
  the whole envelope back, not \<^verbatim>\<open>response.data\<close>.
\<close>

theorem business_error_result_counterexample:
  "responseInterceptor ex_opts = None
   \<and> business_code (ex_response ex_config_full) = JNum 1001
   \<and> the_successStatusCode ex_opts = 200
   \<and> hasErrorMessage (config (ex_response ex_config_full)) = Some True
   \<and> fst (onFulfilled ex_opts (ex_response ex_config_full)) = Envelope (ex_response ex_config_full)
   \<and> fst (onFulfilled ex_opts (ex_response ex_config_full))
       \<noteq> Payload (data (ex_response ex_config_full))"
  by (simp add: onFulfilled_def Let_def ex_opts_def ex_response_def ex_config_full_def
      business_code_def or_empty_def ex_payload_def the_successStatusCode_def
      ex_config_def get_config_def verb_config_def empty_config_def)

text \<open>
  Claim C1, amended: without a response-classification hook and with a notifier
  configured, when the descriptor's \<^verbatim>\<open>hasErrorMessage\<close> is true and the business code of
  the envelope differs from the configured success code, the notifier is invoked once,
  with the business \<^verbatim>\<open>msg\<close> field, and the call returns \<^verbatim>\<open>response.data\<close> unless the
  response is flagged \<^verbatim>\<open>isBlob\<close> or the descriptor asks for \<^verbatim>\<open>returnFullResponse\<close>, in
  which case it returns the whole envelope.
\<close>

theorem business_error_notified:
  assumes "responseInterceptor opts = None"
    and "onError opts"
    and "hasErrorMessage (config resp) = Some True"
    and "business_code resp \<noteq> JNum (the_successStatusCode opts)"
  shows "onFulfilled opts resp =
           (if truthy (header (headers resp) ''isBlob'')
                 \<or> returnFullResponse (config resp) = Some True
            then Envelope resp
            else Payload (data resp),
            [business_msg resp])"
  using assms by (simp add: onFulfilled_default)

theorem business_error_notified_witness:
  "onFulfilled ex_opts (ex_response ex_config) = (Payload ex_payload, [JStr ''denied''])"
proof -
  have a: "responseInterceptor ex_opts = None" and b: "onError ex_opts"
    by (simp_all add: ex_opts_def)
  have c: "hasErrorMessage (config (ex_response ex_config)) = Some True"
    by (simp add: ex_response_def ex_config_def get_config_def verb_config_def)
  have d: "business_code (ex_response ex_config) \<noteq> JNum (the_successStatusCode ex_opts)"
    by (simp add: business_code_def ex_response_def ex_payload_def or_empty_def
        the_successStatusCode_def ex_opts_def)
  show ?thesis
    using business_error_notified [OF a b c d]
    by (simp add: ex_response_def header_def ex_config_def get_config_def verb_config_def
        empty_config_def business_msg_def ex_payload_def or_empty_def)
qed

text \<open>
  The success handler tests the truth of \<^verbatim>\<open>hasErrorMessage\<close>, the error handler tests
  that it is not \<^verbatim>\<open>false\<close>: a descriptor without the property (one handed to
  \<^verbatim>\<open>request\<close> or \<^verbatim>\<open>upload\<close> directly) is silent on a business error and notified on a
  failure.
\<close>

lemma unset_flag_silent_on_success:
  "hasErrorMessage (config resp) = None \<Longrightarrow> snd (onFulfilled opts resp) = []"
  by (cases "responseInterceptor opts") (simp_all add: onFulfilled_def Let_def)

lemma unset_flag_notified_on_failure:
  "config_flag (err_config err) = None \<Longrightarrow> \<not> isCancel err \<Longrightarrow> onError opts \<Longrightarrow>
   resolve_message e opts err = Inr err' \<Longrightarrow>
   snd (onRejected e opts err) = [JStr (message err')]"
  by (simp add: onRejected_def)

text \<open>
  Claim C7: without a response-classification hook, a successful call returns the whole
  envelope exactly when the response headers hold a truthy \<^verbatim>\<open>isBlob\<close> or the descriptor
  asks for \<^verbatim>\<open>returnFullResponse\<close>, and \<^verbatim>\<open>response.data\<close> in every other case.
\<close>

theorem return_shape:
  assumes "responseInterceptor opts = None"
  shows "fst (onFulfilled opts resp) =
           (if (\<exists>v. headers resp ''isBlob'' = Some v \<and> truthy v)
                 \<or> returnFullResponse (config resp) = Some True
            then Envelope resp
            else Payload (data resp))
         \<and> (fst (onFulfilled opts resp) = Envelope resp) =
             ((\<exists>v. headers resp ''isBlob'' = Some v \<and> truthy v)
                \<or> returnFullResponse (config resp) = Some True)"
  using assms by (simp add: onFulfilled_default truthy_header)

theorem return_shape_witness:
  "fst (onFulfilled ex_opts (ex_flagged_response (JBool True) ex_config))
     = Envelope (ex_flagged_response (JBool True) ex_config)
   \<and> fst (onFulfilled ex_opts (ex_flagged_response (JBool False) ex_config)) = Payload ex_payload
   \<and> fst (onFulfilled ex_opts (ex_response ex_config_full)) = Envelope (ex_response ex_config_full)
   \<and> fst (onFulfilled ex_opts (ex_response ex_config)) = Payload ex_payload"
proof -
  have a: "responseInterceptor ex_opts = None"
    by (simp add: ex_opts_def)
  have full: "returnFullResponse ex_config_full = Some True"
    by (simp add: ex_config_full_def)
  have plain: "returnFullResponse ex_config = None"
    by (simp add: ex_config_def get_config_def verb_config_def empty_config_def)
  have flagged: "headers (ex_flagged_response v c) ''isBlob'' = Some v"
    and flagged_config: "config (ex_flagged_response v c) = c"
    and flagged_data: "data (ex_flagged_response v c) = ex_payload" for v c
    by (simp_all add: ex_flagged_response_def ex_response_def)
  have bare: "headers (ex_response c) ''isBlob'' = None"
    and bare_config: "config (ex_response c) = c"
    and bare_data: "data (ex_response c) = ex_payload" for c
    by (simp_all add: ex_response_def)
  show ?thesis
    using return_shape [OF a, of "ex_flagged_response (JBool True) ex_config"]
      return_shape [OF a, of "ex_flagged_response (JBool False) ex_config"]
      return_shape [OF a, of "ex_response ex_config_full"]
      return_shape [OF a, of "ex_response ex_config"]
    by (simp add: full plain flagged flagged_config flagged_data bare bare_config bare_data)
qed

text \<open>
  Claim C8: with a response-classification hook configured, the result of a successful
  call is what the hook returns on the envelope, and nothing of the default policy runs:
  the notifier is not invoked, and neither the business code nor the flags of the
  descriptor are looked at.
\<close>

theorem hook_overrides_default_policy:
  assumes "responseInterceptor opts = Some hook"
  shows "onFulfilled opts resp = (hook resp, [])
         \<and> (transport e (onRequest opts cfg) = Inr resp \<longrightarrow>
              request e opts cfg =
                (Inr (hook resp),
                 \<lparr> sent = [onRequest opts cfg], notified = [], saved = [] \<rparr>))"
  using assms by (simp add: onFulfilled_hook request_success)

theorem hook_overrides_default_policy_witness:
  "request (ex_env answers) ex_opts_hook ex_config_full =
     (Inr (Payload (JNum 200)), \<lparr> sent = [ex_config_full], notified = [], saved = [] \<rparr>)"
proof -
  have a: "responseInterceptor ex_opts_hook = Some ex_hook"
    by (simp add: ex_opts_hook_def)
  have b: "onRequest ex_opts_hook ex_config_full = ex_config_full"
    by (simp add: onRequest_def ex_opts_hook_def ex_opts_def)
  have c: "transport (ex_env answers) ex_config_full = Inr (ex_response ex_config_full)"
    by (simp add: ex_env_def answers_def)
  show ?thesis
    using hook_overrides_default_policy
      [OF a, of "ex_response ex_config_full" "ex_env answers" ex_config_full]
    by (simp add: b c ex_hook_def ex_response_def)
qed

section \<open>The failure path\<close>




text \<open>
  Claim C3, as stated, fails: a custom table may hold the empty string for a status
  (here 404), and the handler then takes the fallback, not the table's entry.
\<close>

theorem status_table_entry_counterexample:
  "\<not> isCancel (ex_http_error ex_config)
   \<and> config_flag (err_config (ex_http_error ex_config)) = Some True
   \<and> map_option status (err_response (ex_http_error ex_config)) = Some 404
   \<and> the_statusMap ex_opts_table 404 = Some []
   \<and> fst (onRejected (ex_env fails_http) ex_opts_table (ex_http_error ex_config))
       = Inl (Rejected ((ex_http_error ex_config) \<lparr> message := msg_connect_error @ ''404'' \<rparr>))
   \<and> msg_connect_error @ ''404'' \<noteq> []"
  by (simp add: onRejected_def resolve_message_def ex_http_error_def config_flag_def
      ex_config_def get_config_def verb_config_def the_statusMap_def ex_opts_table_def
      ex_opts_def status_message_def lookup_status_def string_of_int_404
      msg_connect_error_def)

text \<open>
  Claim C3, amended: for a failure that is not a cancellation, carries a response and
  whose descriptor does not set \<^verbatim>\<open>hasErrorMessage\<close> to false, the message attached to
  the failure that is raised again is the table's entry for the status when the status
  is not 0 and the table has a non-empty entry for it, and the fallback text followed
  by the status in decimal otherwise.
\<close>

theorem http_failure_message:
  assumes "\<not> isCancel err"
    and "config_flag (err_config err) \<noteq> Some False"
    and "err_response err = Some r"
  shows "fst (onRejected e opts err) =
           Inl (Rejected (err \<lparr> message :=
                  (case the_statusMap opts (status r) of
                     Some m \<Rightarrow>
                       if status r \<noteq> 0 \<and> m \<noteq> [] then m
                       else msg_connect_error @ string_of_int (status r)
                   | None \<Rightarrow> msg_connect_error @ string_of_int (status r)) \<rparr>))"
  using assms by (simp add: onRejected_http status_message_cases)

theorem http_failure_message_witness:
  "fst (onRejected (ex_env fails_http) ex_opts (ex_http_error ex_config))
     = Inl (Rejected ((ex_http_error ex_config) \<lparr> message := msg_404 \<rparr>))
   \<and> fst (onRejected (ex_env fails_http) (ex_opts \<lparr> statusMap := Some Map.empty \<rparr>)
            (ex_http_error ex_config))
     = Inl (Rejected ((ex_http_error ex_config) \<lparr> message := msg_connect_error @ ''404'' \<rparr>))"
proof -
  have a: "\<not> isCancel (ex_http_error ex_config)"
    by (simp add: ex_http_error_def)
  have b: "config_flag (err_config (ex_http_error ex_config)) \<noteq> Some False"
    by (simp add: config_flag_def ex_http_error_def ex_config_def get_config_def verb_config_def)
  have c: "err_response (ex_http_error ex_config)
             = Some \<lparr> status = 404, headers = Map.empty, config = ex_config, data = JStr [] \<rparr>"
    by (simp add: ex_http_error_def)
  have d: "the_statusMap ex_opts 404 = Some msg_404"
    by (simp add: the_statusMap_def ex_opts_def default_statusMap_def)
  have d': "the_statusMap (ex_opts \<lparr> statusMap := Some Map.empty \<rparr>) 404 = None"
    by (simp add: the_statusMap_def)
  have e: "msg_404 \<noteq> []"
    by (simp add: msg_404_def)
  show ?thesis
    using http_failure_message [OF a b c, of "ex_env fails_http" ex_opts]
      http_failure_message [OF a b c, of "ex_env fails_http" "ex_opts \<lparr> statusMap := Some Map.empty \<rparr>"]
    by (simp add: d d' e string_of_int_404)
qed



text \<open>
  Claim C5: a failure that is an explicit cancellation is raised again at once, as it
  is: no message is resolved and the notifier is not invoked, whatever the descriptor's
  \<^verbatim>\<open>hasErrorMessage\<close> and whether or not the failure carries a response.
\<close>

theorem cancellation_reraised_untouched:
  assumes "isCancel err"
  shows "onRejected e opts err = (Inl (Rejected err), [])
         \<and> (transport e (onRequest opts cfg) = Inl err \<longrightarrow>
              request e opts cfg =
                (Inl (Rejected err),
                 \<lparr> sent = [onRequest opts cfg], notified = [], saved = [] \<rparr>))"
  using assms by (simp add: onRejected_cancel request_failure)

theorem cancellation_reraised_untouched_witness:
  "request (ex_env cancels) ex_opts ex_config =
     (Inl (Rejected (ex_cancel ex_config)),
      \<lparr> sent = [ex_config], notified = [], saved = [] \<rparr>)
   \<and> message (ex_cancel ex_config) = ''canceled''"
proof -
  have a: "isCancel (ex_cancel ex_config)"
    by (simp add: ex_cancel_def)
  have b: "onRequest ex_opts ex_config = ex_config"
    by (simp add: onRequest_def ex_opts_def)
  have c: "transport (ex_env cancels) ex_config = Inl (ex_cancel ex_config)"
    by (simp add: ex_env_def cancels_def)
  show ?thesis
    using cancellation_reraised_untouched [OF a, of "ex_env cancels" ex_opts ex_config]
    by (simp add: b c) (simp add: ex_cancel_def)
qed

text \<open>
  The JavaScript revision of the handler has no cancellation test: there a cancellation
  whose descriptor does not silence it is treated as a failure without a response.
\<close>

lemma onRejected_js_cancel:
  "snd (onRejected_js (ex_env cancels) ex_opts (ex_cancel ex_config)) = [JStr msg_timeout]"
  by (simp add: onRejected_js_def resolve_message_def Let_def ex_cancel_def config_flag_def
      ex_config_def get_config_def verb_config_def ex_env_def ex_stringify_def ex_opts_def
      msg_connect_failed_def)

lemma onRejected_js_eq:
  "\<not> isCancel err \<Longrightarrow> onRejected_js e opts err = onRejected e opts err"
  by (simp add: onRejected_js_def onRejected_def)

text \<open>
  Claim C6 does not hold of the error handler: a failure without a response that
  \<^verbatim>\<open>JSON.stringify\<close> cannot serialize makes the handler throw before it reaches
  \<^verbatim>\<open>Promise.reject(error)\<close>. The call is rejected with the \<^verbatim>\<open>TypeError\<close>, not with
  the failure the transport raised, and the notifier is not invoked.
\<close>

theorem unserializable_failure_replaced:
  "transport (ex_env_unserializable fails_network) (onRequest ex_opts ex_config)
     = Inl (ex_network_error ex_config)
   \<and> stringify (ex_env_unserializable fails_network)
        ((ex_network_error ex_config) \<lparr> message := msg_connect_failed \<rparr>) = None
   \<and> request (ex_env_unserializable fails_network) ex_opts ex_config
       = (Inl TypeError, \<lparr> sent = [ex_config], notified = [], saved = [] \<rparr>)
   \<and> get (ex_env_unserializable fails_network) ex_opts ''/api/list'' None None None
       = (Inl TypeError, \<lparr> sent = [ex_config], notified = [], saved = [] \<rparr>)"
proof -
  let ?e = "ex_env_unserializable fails_network"
  let ?err = "ex_network_error ex_config"
  have shaped: "onRequest ex_opts ex_config = ex_config"
    by (simp add: onRequest_def ex_opts_def)
  have failed: "transport ?e (onRequest ex_opts ex_config) = Inl ?err"
    by (simp add: shaped ex_env_unserializable_def ex_env_def fails_network_def)
  have thrown: "stringify ?e (?err \<lparr> message := msg_connect_failed \<rparr>) = None"
    by (simp add: ex_env_unserializable_def ex_env_def)
  have "\<not> isCancel ?err" and "config_flag (err_config ?err) \<noteq> Some False"
    and "err_response ?err = None"
    by (simp_all add: ex_network_error_def config_flag_def ex_config_def get_config_def
        verb_config_def)
  then have handled: "onRejected ?e ex_opts ?err = (Inl TypeError, [])"
    using thrown by (rule onRejected_unserializable)
  have call: "request ?e ex_opts ex_config
                = (Inl TypeError, \<lparr> sent = [ex_config], notified = [], saved = [] \<rparr>)"
    by (simp add: request_failure [OF failed] handled shaped)
  have verb: "get ?e ex_opts ''/api/list'' None None None = request ?e ex_opts ex_config"
    by (simp add: get_def ex_config_def)
  show ?thesis
    using failed thrown call verb by simp
qed

text \<open>
  What does hold: a failure of the transport never becomes a result, and unless the
  serialization throws the call is rejected with the failure the transport raised,
  changed at most in its message.
\<close>

lemma failure_never_resolves:
  "transport e (onRequest opts cfg) = Inl err \<Longrightarrow> \<exists>thrown. fst (request e opts cfg) = Inl thrown"
  using onRejected_rejects [of e opts err] by (simp add: request_failure)

lemma failure_reraised_when_serialized:
  assumes "transport e (onRequest opts cfg) = Inl err"
    and "isCancel err \<or> config_flag (err_config err) = Some False
         \<or> err_response err \<noteq> None
         \<or> stringify e (err \<lparr> message := msg_connect_failed \<rparr>) \<noteq> None"
  shows "\<exists>m. fst (request e opts cfg) = Inl (Rejected (err \<lparr> message := m \<rparr>))"
proof -
  have "\<exists>m. fst (onRejected e opts err) = Inl (Rejected (err \<lparr> message := m \<rparr>))"
  proof (cases "isCancel err \<or> config_flag (err_config err) = Some False")
    case True
    then have "fst (onRejected e opts err) = Inl (Rejected (err \<lparr> message := message err \<rparr>))"
      by (auto simp: onRejected_def)
    then show ?thesis ..
  next
    case False
    with assms(2) show ?thesis
      by (cases "err_response err")
        (auto simp: onRejected_def resolve_message_def Let_def)
  qed
  then show ?thesis
    by (simp add: request_failure [OF assms(1)])
qed

section \<open>Upload and download\<close>

text \<open>
  Claim C9 does not hold of \<^verbatim>\<open>upload\<close>: when the third argument has headers of its
  own that name no content type, the descriptor handed to \<^verbatim>\<open>request\<close> has those headers
  only, and no \<^verbatim>\<open>Content-Type\<close> at all.
\<close>

theorem upload_loses_content_type:
  "descriptor_header ex_extra ''Content-Type'' = None
   \<and> req_method (upload_config ''/upload'' (JObj []) ex_extra) = Some ''post''
   \<and> descriptor_header (upload_config ''/upload'' (JObj []) ex_extra) ''Content-Type'' = None
   \<and> descriptor_header (upload_config ''/upload'' (JObj []) ex_extra) ''Token''
       = Some (JStr ''abc'')
   \<and> upload e opts ''/upload'' (JObj []) ex_extra
       = request e opts (upload_config ''/upload'' (JObj []) ex_extra)"
  by (simp add: descriptor_header_def upload_config_def spread_def override_def ex_extra_def
      empty_config_def upload_def)

text \<open>
  What \<^verbatim>\<open>upload\<close> does build: the third argument wins in every property it has.
  Without headers of its own the descriptor carries the multipart content type; with
  headers of its own it carries exactly those; the method is \<^verbatim>\<open>post\<close> unless the third
  argument names one.
\<close>

lemma upload_config_headers:
  "req_headers (upload_config u fd cfg) =
     (case req_headers cfg of
        Some h \<Rightarrow> Some h
      | None \<Rightarrow> Some [''Content-Type'' \<mapsto> JStr ''multipart/form-data''])"
  by (simp add: upload_config_def spread_def override_def spread_headers_def
      split: option.split)

lemma upload_config_method:
  "req_method (upload_config u fd cfg) =
     (case req_method cfg of Some m \<Rightarrow> Some m | None \<Rightarrow> Some ''post'')"
  by (simp add: upload_config_def spread_def override_def split: option.split)

lemma upload_delegates: "upload e opts u fd cfg = request e opts (upload_config u fd cfg)"
  by (simp add: upload_def)

text \<open>
  Claim C10: where no global \<^verbatim>\<open>window\<close> exists, \<^verbatim>\<open>download\<close> returns without a value
  and without a failure, and the transport is never handed a descriptor.
\<close>

theorem download_outside_browser:
  assumes "\<not> window_defined e"
  shows "download e opts u ps cfg = (Inr (), \<lparr> sent = [], notified = [], saved = [] \<rparr>)"
  using assms by (simp add: download_def)

theorem download_outside_browser_witness:
  "download (ex_env answers) ex_opts ''/report'' None empty_config
     = (Inr (), \<lparr> sent = [], notified = [], saved = [] \<rparr>)"
proof -
  have "\<not> window_defined (ex_env answers)"
    by (simp add: ex_env_def)
  then show ?thesis
    by (rule download_outside_browser)
qed

text \<open>In a browser the same call does reach the transport.\<close>

lemma download_in_browser:
  "sent (snd (download ((ex_env answers) \<lparr> window_defined := True \<rparr>) ex_opts ''/report'' None
            empty_config))
     = [empty_config \<lparr> req_method := Some ''get'', url := Some ''/report'',
          responseType := Some ''blob'' \<rparr>]"
  by (simp add: download_def service_get_def service_request_def Let_def ex_env_def
      answers_def onRequest_def ex_opts_def onFulfilled_def spread_def override_def
      empty_config_def result_data_def ex_response_def ex_payload_def header_def
      business_code_def or_empty_def the_successStatusCode_def)

end
